theory Spec2Isabelle
  imports Complex_Main "HOL-Library.Word" "HOL-Library.Multiset"
begin

section \<open>The IIO buffer accelerometer driver (drv-iio-buffer-accel.c)\<close>

text \<open>
  A shallow embedding of the driver: the scan reader \<open>read_orientation\<close> with its
  function-static byte counter, the decode step \<open>process_scan\<close>, the device matcher,
  the trigger lookup, the poll controller and the open/close lifecycle.

  The driver's variables live in one record, \<open>world\<close>: the global pointer
  \<open>drv_data\<close>, the static \<open>read_size_ctr\<close> of \<open>read_orientation\<close>, the event
  sources attached to the GLib main loop, the heap objects that are alive, and the
  calls made to the host's callback. Operations pass the world along; a process that
  is terminated (\<open>g_error\<close>, a failed \<open>g_assert\<close>, a NULL dereference) is the
  \<open>Inl\<close> branch of a sum.

  What is not in this file of the repository is a parameter or a small documented
  model: GLib (\<open>g_io_channel_read_chars\<close>, \<open>g_strcmp0\<close>, the main loop),
  \<open>process_scan_1\<close> and \<open>buffer_drv_data_new\<close> of iio-buffer-utils.c, and the
  types of drivers.h. \<open>gdouble\<close> is modelled by \<open>real\<close>: rounding is not modelled.
  Logging that does not end the process (\<open>g_debug\<close>, \<open>g_warning\<close>) changes no
  variable of the program and is left out.
\<close>

subsection \<open>Machine types and the byte stream\<close>

type_synonym gsize = "64 word"
type_synonym bytes = "8 word list"

datatype GIOStatus =
  G_IO_STATUS_ERROR | G_IO_STATUS_NORMAL | G_IO_STATUS_EOF | G_IO_STATUS_AGAIN

text \<open>
  The stream behind a \<open>GIOChannel\<close> is what the device will hand out, in order:
  \<open>Avail bs\<close> are bytes that can be read without blocking, \<open>Blocked\<close> is a moment
  with nothing to read, \<open>Hangup\<close> the end of the file, \<open>Broken\<close> an I/O error.
\<close>

datatype io_event = Avail bytes | Blocked | Hangup | Broken

type_synonym GIOChannel = "io_event list"

text \<open>
  GLib is not part of the repository. \<open>g_io_channel_read_chars channel buf n_req\<close> is
  modelled from its documented contract: a request for zero bytes returns
  \<open>G_IO_STATUS_NORMAL\<close> at once; otherwise it returns at most \<open>n_req\<close> of the
  available bytes with \<open>G_IO_STATUS_NORMAL\<close> and leaves the others in the channel,
  or no byte and another status. The result is the status, the bytes read (their
  number is \<open>bytes_read\<close>) and the channel afterwards.
\<close>

definition g_io_channel_read_chars :: "GIOChannel \<Rightarrow> nat \<Rightarrow> GIOStatus \<times> bytes \<times> GIOChannel" where
  "g_io_channel_read_chars channel n_req =
     (if n_req = 0 then (G_IO_STATUS_NORMAL, [], channel)
      else case channel of
        [] \<Rightarrow> (G_IO_STATUS_AGAIN, [], [])
      | Avail bs # rest \<Rightarrow>
          if bs = [] then (G_IO_STATUS_AGAIN, [], rest)
          else (G_IO_STATUS_NORMAL, take n_req bs,
                if length bs \<le> n_req then rest else Avail (drop n_req bs) # rest)
      | Blocked # rest \<Rightarrow> (G_IO_STATUS_AGAIN, [], rest)
      | Hangup # rest \<Rightarrow> (G_IO_STATUS_EOF, [], Hangup # rest)
      | Broken # rest \<Rightarrow> (G_IO_STATUS_ERROR, [], rest))"

text \<open>The bytes and events still in a channel: every successful read lowers it.\<close>

fun event_weight :: "io_event \<Rightarrow> nat" where
  "event_weight (Avail bs) = Suc (length bs)"
| "event_weight Blocked = 1"
| "event_weight Hangup = 1"
| "event_weight Broken = 1"

definition channel_weight :: "GIOChannel \<Rightarrow> nat" where
  "channel_weight channel = sum_list (map event_weight channel)"

subsection \<open>Devices and string comparison\<close>

text \<open>
  A \<open>GUdevDevice\<close> as far as the driver reads it. A getter of GUdev that may return
  NULL is an \<open>option\<close>.
\<close>

record GUdevDevice =
  subsystem :: "string option"
  sysfs_attr :: "string \<Rightarrow> string option"
  number :: "string option"
  device_file :: "string option"

text \<open>\<open>strcmp\<close> compares bytes as unsigned values; only the sign of the result is used.\<close>

fun strcmp :: "string \<Rightarrow> string \<Rightarrow> int" where
  "strcmp [] [] = 0"
| "strcmp [] (y # ys) = - 1"
| "strcmp (x # xs) [] = 1"
| "strcmp (x # xs) (y # ys) =
     (if x = y then strcmp xs ys
      else if (of_char x :: nat) < of_char y then - 1 else 1)"

text \<open>\<open>g_strcmp0\<close> is \<open>strcmp\<close> that takes NULL: NULL sorts before every string.\<close>

fun g_strcmp0 :: "string option \<Rightarrow> string option \<Rightarrow> int" where
  "g_strcmp0 None None = 0"
| "g_strcmp0 None (Some s2) = - 1"
| "g_strcmp0 (Some s1) None = 1"
| "g_strcmp0 (Some s1) (Some s2) = strcmp s1 s2"

subsection \<open>Device matcher and trigger lookup\<close>

definition iio_buffer_accel_discover :: "GUdevDevice \<Rightarrow> bool" where
  "iio_buffer_accel_discover device =
     (if g_strcmp0 (subsystem device) (Some ''iio'') \<noteq> 0 then False
      else if g_strcmp0 (Some ''accel_3d'') (sysfs_attr device ''name'') \<noteq> 0 then False
      else True)"

text \<open>The loop of \<open>get_trigger_name\<close> over the devices of the registry.\<close>

fun has_trigger :: "string \<Rightarrow> GUdevDevice list \<Rightarrow> bool" where
  "has_trigger trigger_name [] = False"
| "has_trigger trigger_name (dev # l) =
     (if g_strcmp0 (Some trigger_name) (sysfs_attr dev ''name'') = 0 then True
      else has_trigger trigger_name l)"

text \<open>\<open>%s\<close> of a NULL pointer prints \<open>(null)\<close> in the C library GLib builds on.\<close>

definition printf_s :: "string option \<Rightarrow> string" where
  "printf_s s = (case s of None \<Rightarrow> ''(null)'' | Some t \<Rightarrow> t)"

text \<open>
  \<open>get_trigger_name\<close>: the registry client and the list of devices are released
  before it returns on both paths, and the name is freed when no device carries it,
  so only a returned name stays allocated.
\<close>

definition get_trigger_name :: "GUdevDevice list \<Rightarrow> GUdevDevice \<Rightarrow> string option" where
  "get_trigger_name devices device =
     (let trigger_name = ''accel_3d-dev'' @ printf_s (number device)
      in if has_trigger trigger_name devices then Some trigger_name else None)"

subsection \<open>The decode step\<close>

text \<open>
  Only \<open>scan_size\<close> of \<open>BufferDrvData\<close> is read in this file; the channel layout
  behind it is used by \<open>process_scan_1\<close> alone and stays abstract in \<open>layout\<close>.
\<close>

record BufferDrvData =
  scan_size :: gsize
  layout :: nat

text \<open>
  Modelled from the spec: \<open>AccelReadings\<close> is declared in drivers.h, which is not
  among the sources. The spec's Reading is three physical-unit values (x, y, z).
\<close>

record AccelReadings =
  accel_x :: real
  accel_y :: real
  accel_z :: real

text \<open>
  \<open>process_scan_1\<close> (iio-buffer-utils.c, not among the sources) receives the record,
  the buffer data, a channel name and three out-pointers: the channel value, the
  scale and the presence flag. It is a parameter of the model, taken as a function
  from the contents of the three pointed-to variables before the call to their
  contents after it, so that a callee that leaves one of them untouched is covered.
\<close>

type_synonym scan_out = "32 word \<times> real \<times> bool"
type_synonym scan_fn = "bytes \<Rightarrow> BufferDrvData \<Rightarrow> string \<Rightarrow> scan_out \<Rightarrow> scan_out"

text \<open>The locals of \<open>process_scan\<close> are not initialised: their first contents are inputs.\<close>

record scan_locals =
  l_accel_x :: "32 word"
  l_accel_y :: "32 word"
  l_accel_z :: "32 word"
  l_scale :: real
  l_present_x :: bool
  l_present_y :: bool
  l_present_z :: bool

text \<open>
  Lines 43 to 58 of \<open>process_scan\<close>: three extractions into \<open>accel_x\<close>,
  \<open>accel_y\<close>, \<open>accel_z\<close>, all three writing the one variable \<open>scale\<close>; then x
  and y are negated (32-bit negation) and each value is multiplied by \<open>scale\<close>.
  The presence flags are written and never read.
\<close>

definition scan_readings :: "scan_fn \<Rightarrow> scan_locals \<Rightarrow> bytes \<Rightarrow> BufferDrvData \<Rightarrow> AccelReadings" where
  "scan_readings process_scan_1 l data bd =
     (case process_scan_1 data bd ''in_accel_x'' (l_accel_x l, l_scale l, l_present_x l) of
        (ax, scale1, present_x) \<Rightarrow>
     (case process_scan_1 data bd ''in_accel_y'' (l_accel_y l, scale1, l_present_y l) of
        (ay, scale2, present_y) \<Rightarrow>
     (case process_scan_1 data bd ''in_accel_z'' (l_accel_z l, scale2, l_present_z l) of
        (az, scale, present_z) \<Rightarrow>
        \<lparr> accel_x = real_of_int (sint (- ax)) * scale,
          accel_y = real_of_int (sint (- ay)) * scale,
          accel_z = real_of_int (sint az) * scale \<rparr>)))"

subsection \<open>The driver's state\<close>

record DrvData =
  gio_r :: "GIOChannel option"
  io_source :: nat
  callback_func :: nat
  user_data :: nat
  dev :: "GUdevDevice option"
  dev_path :: "string option"
  device_id :: int
  buffer_data :: "BufferDrvData option"

text \<open>\<open>g_new0 (DrvData, 1)\<close>: every field zero, every pointer NULL.\<close>

definition new0_DrvData :: DrvData where
  "new0_DrvData =
     \<lparr> gio_r = None, io_source = 0, callback_func = 0, user_data = 0, dev = None,
       dev_path = None, device_id = 0, buffer_data = None \<rparr>"

text \<open>
  Heap objects the lifecycle allocates and releases; \<open>live\<close> counts those that are
  allocated and not yet released.
\<close>

datatype resource =
  R_drv_data | R_trigger_name | R_buffer_data | R_device_ref | R_channel

text \<open>
  \<open>io_source\<close> and the identifiers of event sources are natural numbers (GLib hands
  out identifiers from 1 upwards). \<open>callback_func\<close> and \<open>user_data\<close> are the
  addresses the host passed; a call of the callback is recorded in \<open>delivered\<close> with
  the readings it received.
\<close>

record world =
  drv_data :: "DrvData option"
  read_size_ctr :: gsize
  last_source_id :: nat
  sources :: "nat list"
  live :: "resource multiset"
  delivered :: "(nat \<times> AccelReadings \<times> nat) list"

datatype fault = Abort | Segfault

text \<open>A store through the pointer \<open>drv_data\<close>.\<close>

definition upd_drv :: "(DrvData \<Rightarrow> DrvData) \<Rightarrow> world \<Rightarrow> world" where
  "upd_drv f w = w\<lparr>drv_data := map_option f (drv_data w)\<rparr>"

definition release :: "resource \<Rightarrow> world \<Rightarrow> world" where
  "release r w = w\<lparr>live := live w - {#r#}\<rparr>"

definition allocate :: "resource \<Rightarrow> world \<Rightarrow> world" where
  "allocate r w = w\<lparr>live := add_mset r (live w)\<rparr>"

subsection \<open>The scan reader\<close>

text \<open>
  \<open>process_scan\<close>: the readings of the record are passed to the callback of the
  session (line 59), in every case.
\<close>

definition process_scan :: "scan_fn \<Rightarrow> scan_locals \<Rightarrow> bytes \<Rightarrow> DrvData \<Rightarrow> BufferDrvData \<Rightarrow> world \<Rightarrow> world" where
  "process_scan process_scan_1 l data or_data bd w =
     w\<lparr>delivered := delivered w @
          [(callback_func or_data, scan_readings process_scan_1 l data bd, user_data or_data)]\<rparr>"

text \<open>
  The body of the read loop (lines 89 to 96) after a read that returned the bytes
  \<open>buf\<close>: the counter is advanced by \<open>buff.read_size\<close>, and taken back by the same
  amount when it has reached \<open>buf_size\<close>; the bytes become the captured record
  \<open>data\<close> when \<open>buff.read_size\<close> itself is at least \<open>buf_size\<close>.
\<close>

definition scan_step :: "gsize \<Rightarrow> gsize \<Rightarrow> bytes option \<Rightarrow> bytes \<Rightarrow> gsize \<times> bytes option" where
  "scan_step buf_size ctr data buf =
     (let read_size = (of_nat (length buf) :: gsize);
          ctr1 = ctr + read_size;
          ctr2 = (if ctr1 \<ge> buf_size then ctr1 - read_size else ctr1)
      in (ctr2, if read_size \<ge> buf_size then Some buf else data))"

text \<open>
  The \<open>for\<close> loop of \<open>read_orientation\<close>: read \<open>buf_size - read_size_ctr\<close> bytes,
  run the body while the status is \<open>G_IO_STATUS_NORMAL\<close>, and leave with the first
  other status. A loop that never leaves has the value \<open>None\<close>. \<open>hist\<close> is not a
  variable of the code: it lists what the successful reads returned, in order, so
  that properties of one invocation can be stated.
\<close>

partial_function (option) read_loop ::
  "gsize \<Rightarrow> GIOChannel \<Rightarrow> gsize \<Rightarrow> bytes option \<Rightarrow> bytes list \<Rightarrow>
   (GIOStatus \<times> GIOChannel \<times> gsize \<times> bytes option \<times> bytes list) option" where
  "read_loop buf_size channel ctr data hist =
     (case g_io_channel_read_chars channel (unat (buf_size - ctr)) of
        (status, buf, channel') \<Rightarrow>
          if status = G_IO_STATUS_NORMAL
          then (case scan_step buf_size ctr data buf of
                  (ctr', data') \<Rightarrow> read_loop buf_size channel' ctr' data' (hist @ [buf]))
          else Some (status, channel', ctr, data, hist))"

definition G_IO_IN :: nat where
  "G_IO_IN = 1"

text \<open>
  \<open>read_orientation\<close>, called by the main loop with the channel and the pointer
  registered by \<open>iio_buffer_accel_set_polling\<close>, that is \<open>drv_data->gio_r\<close> and
  \<open>drv_data\<close>. The two \<open>g_assert_cmpuint\<close> end the process when they fail (a NULL
  channel makes GLib return \<open>G_IO_STATUS_ERROR\<close>, which fails the second). After
  the loop a captured record goes to \<open>process_scan\<close>. The scratch buffers are local
  to the call and freed before it returns; they are not counted in \<open>live\<close>.
\<close>

definition read_orientation ::
  "scan_fn \<Rightarrow> scan_locals \<Rightarrow> nat \<Rightarrow> world \<Rightarrow> (fault + world) option" where
  "read_orientation process_scan_1 l condition w =
     (case drv_data w of
        None \<Rightarrow> Some (Inl Segfault)
      | Some or_data \<Rightarrow>
     (case buffer_data or_data of
        None \<Rightarrow> Some (Inl Segfault)
      | Some bd \<Rightarrow>
          if condition \<noteq> G_IO_IN then Some (Inl Abort)
          else
     (case gio_r or_data of
        None \<Rightarrow> Some (Inl Abort)
      | Some channel \<Rightarrow>
     (case read_loop (scan_size bd) channel (read_size_ctr w) None [] of
        None \<Rightarrow> None
      | Some (status, channel', ctr', data, hist) \<Rightarrow>
          if status \<noteq> G_IO_STATUS_AGAIN then Some (Inl Abort)
          else
            let w1 = w\<lparr> drv_data := Some (or_data\<lparr>gio_r := Some channel'\<rparr>),
                        read_size_ctr := ctr' \<rparr>
            in Some (Inr (case data of
                            None \<Rightarrow> w1
                          | Some scan \<Rightarrow> process_scan process_scan_1 l scan or_data bd w1))))))"

text \<open>The main loop delivering \<open>n\<close> readiness notifications, one after the other.\<close>

fun dispatch :: "scan_fn \<Rightarrow> scan_locals \<Rightarrow> nat \<Rightarrow> world \<Rightarrow> (fault + world) option" where
  "dispatch process_scan_1 l 0 w = Some (Inr w)"
| "dispatch process_scan_1 l (Suc n) w =
     (case read_orientation process_scan_1 l G_IO_IN w of
        None \<Rightarrow> None
      | Some (Inl f) \<Rightarrow> Some (Inl f)
      | Some (Inr w') \<Rightarrow> dispatch process_scan_1 l n w')"

subsection \<open>The poll controller\<close>

text \<open>
  The main loop of GLib, modelled from its documentation: \<open>g_io_add_watch\<close>
  attaches a new source and returns its identifier, which is greater than 0;
  \<open>g_source_remove\<close> detaches the source with the given identifier.
\<close>

definition g_io_add_watch :: "world \<Rightarrow> nat \<times> world" where
  "g_io_add_watch w =
     (let i = Suc (last_source_id w)
      in (i, w\<lparr>last_source_id := i, sources := i # sources w\<rparr>))"

definition g_source_remove :: "nat \<Rightarrow> world \<Rightarrow> world" where
  "g_source_remove i w = w\<lparr>sources := remove1 i (sources w)\<rparr>"

definition iio_buffer_accel_set_polling :: "bool \<Rightarrow> world \<Rightarrow> fault + world" where
  "iio_buffer_accel_set_polling state w =
     (case drv_data w of
        None \<Rightarrow> Inl Segfault
      | Some d \<Rightarrow>
          if io_source d > 0 \<and> state then Inr w
          else if io_source d = 0 \<and> \<not> state then Inr w
          else
            let w1 = (if io_source d \<noteq> 0
                      then upd_drv (\<lambda>d. d\<lparr>io_source := 0\<rparr>) (g_source_remove (io_source d) w)
                      else w)
            in if state
               then (case g_io_add_watch w1 of
                       (i, w2) \<Rightarrow> Inr (upd_drv (\<lambda>d. d\<lparr>io_source := i\<rparr>) w2))
               else Inr w1)"

text \<open>
  The sources attached for the session are exactly what \<open>io_source\<close> says: none
  when it is 0 (or when there is no session), and the one it names otherwise.
\<close>

definition one_registration :: "world \<Rightarrow> bool" where
  "one_registration w =
     (case drv_data w of
        None \<Rightarrow> sources w = []
      | Some d \<Rightarrow> sources w = (if io_source d = 0 then [] else [io_source d]))"

subsection \<open>Open and close\<close>

text \<open>
  What \<open>open\<close> asks of its collaborators: the devices the registry lists on the
  bus, \<open>buffer_drv_data_new\<close> (iio-buffer-utils.c, not among the sources; NULL is
  \<open>None\<close>), whether \<open>g_io_channel_new_file\<close> opens the stream (\<open>None\<close> when it sets
  the error), for which encoding names the converter cannot be opened, and the
  status of \<open>g_io_channel_set_flags\<close>, which \<open>open\<close> logs and otherwise ignores.
  The channel model above is that of a stream in non-blocking mode.
\<close>

record open_env =
  udev_devices :: "GUdevDevice list"
  buffer_drv_data_new :: "GUdevDevice \<Rightarrow> string \<Rightarrow> BufferDrvData option"
  g_io_channel_new_file :: "string option \<Rightarrow> GIOChannel option"
  iconv_fails :: "string \<Rightarrow> bool"
  set_flags_status :: GIOStatus

text \<open>
  \<open>g_io_channel_set_encoding\<close>, modelled from the GLib documentation, on a channel
  that was just created: the encoding NULL selects binary data, uses no converter
  and sets no error; a named encoding sets the error when its converter cannot be
  opened. The result says whether the error was set.
\<close>

definition g_io_channel_set_encoding :: "(string \<Rightarrow> bool) \<Rightarrow> string option \<Rightarrow> bool" where
  "g_io_channel_set_encoding converter_fails encoding =
     (case encoding of None \<Rightarrow> False | Some name \<Rightarrow> converter_fails name)"

text \<open>\<open>g_clear_pointer (&drv_data, g_free)\<close>.\<close>

definition clear_drv_data :: "world \<Rightarrow> world" where
  "clear_drv_data w =
     (case drv_data w of
        None \<Rightarrow> w
      | Some d \<Rightarrow> release R_drv_data (w\<lparr>drv_data := None\<rparr>))"

text \<open>
  \<open>iio_buffer_accel_open\<close>. \<open>g_error\<close> logs at the level that GLib always treats
  as fatal: the process is aborted there, and the statements written after the two
  calls of \<open>g_error\<close> (lines 213 to 217 and 222 to 227) are never run. The encoding
  is set to NULL (line 219). A failure of \<open>g_io_channel_set_flags\<close> is only logged.
\<close>

definition iio_buffer_accel_open ::
  "open_env \<Rightarrow> GUdevDevice \<Rightarrow> nat \<Rightarrow> nat \<Rightarrow> world \<Rightarrow> fault + (bool \<times> world)" where
  "iio_buffer_accel_open env device cb ud w =
     (let w1 = allocate R_drv_data (w\<lparr>drv_data := Some new0_DrvData\<rparr>)
      in case get_trigger_name (udev_devices env) device of
           None \<Rightarrow> Inr (False, clear_drv_data w1)
         | Some trigger_name \<Rightarrow>
             let w2 = allocate R_trigger_name w1;
                 bd = buffer_drv_data_new env device trigger_name;
                 w3 = upd_drv (\<lambda>d. d\<lparr>buffer_data := bd\<rparr>)
                        (if bd = None then w2 else allocate R_buffer_data w2);
                 w4 = release R_trigger_name w3
             in if bd = None then Inr (False, clear_drv_data w4)
                else
                  let w5 = upd_drv (\<lambda>d. d\<lparr> dev := Some device,
                                            dev_path := device_file device,
                                            callback_func := cb,
                                            user_data := ud \<rparr>)
                             (allocate R_device_ref w4)
                  in case g_io_channel_new_file env (device_file device) of
                       None \<Rightarrow> Inl Abort
                     | Some channel \<Rightarrow>
                         let w6 = upd_drv (\<lambda>d. d\<lparr>gio_r := Some channel\<rparr>)
                                    (allocate R_channel w5)
                         in if g_io_channel_set_encoding (iconv_fails env) None
                            then Inl Abort
                            else Inr (True, w6))"

text \<open>
  \<open>iio_buffer_accel_close\<close>: polling is stopped, then the buffer data, the channel,
  the device reference and the session itself are released. \<open>read_size_ctr\<close> is
  a static of \<open>read_orientation\<close> and is not touched.
\<close>

definition iio_buffer_accel_close :: "world \<Rightarrow> fault + world" where
  "iio_buffer_accel_close w =
     (case iio_buffer_accel_set_polling False w of
        Inl f \<Rightarrow> Inl f
      | Inr w1 \<Rightarrow>
     (case drv_data w1 of
        None \<Rightarrow> Inl Segfault
      | Some d \<Rightarrow>
          let w2 = (if buffer_data d = None then w1
                    else upd_drv (\<lambda>d. d\<lparr>buffer_data := None\<rparr>) (release R_buffer_data w1));
              w3 = (if gio_r d = None then w2 else release R_channel w2);
              w4 = (if dev d = None then w3
                    else upd_drv (\<lambda>d. d\<lparr>dev := None\<rparr>) (release R_device_ref w3))
          in Inr (clear_drv_data w4)))"

subsection \<open>A host and a test bench\<close>

text \<open>
  A host that follows the driver contract: open the device, enable polling, take
  \<open>n\<close> readiness notifications, close. When \<open>open\<close> fails nothing else is called.
\<close>

definition run_session ::
  "scan_fn \<Rightarrow> scan_locals \<Rightarrow> open_env \<Rightarrow> GUdevDevice \<Rightarrow> nat \<Rightarrow> world \<Rightarrow> (fault + world) option" where
  "run_session process_scan_1 l env device n w =
     (case iio_buffer_accel_open env device 1 2 w of
        Inl f \<Rightarrow> Some (Inl f)
      | Inr (ok, w1) \<Rightarrow>
          if \<not> ok then Some (Inr w1)
          else
     (case iio_buffer_accel_set_polling True w1 of
        Inl f \<Rightarrow> Some (Inl f)
      | Inr w2 \<Rightarrow>
     (case dispatch process_scan_1 l n w2 of
        None \<Rightarrow> None
      | Some (Inl f) \<Rightarrow> Some (Inl f)
      | Some (Inr w3) \<Rightarrow> Some (iio_buffer_accel_close w3))))"

text \<open>The state of the process before the driver is first used.\<close>

definition boot :: world where
  "boot = \<lparr> drv_data = None, read_size_ctr = 0, last_source_id = 0, sources = [],
           live = {#}, delivered = [] \<rparr>"

text \<open>An accelerometer \<open>iio:device3\<close> and its trigger, with records of 8 bytes.\<close>

definition accel_dev :: GUdevDevice where
  "accel_dev = \<lparr> subsystem = Some ''iio'',
                sysfs_attr = (\<lambda>a. if a = ''name'' then Some ''accel_3d'' else None),
                number = Some ''3'',
                device_file = Some ''/dev/iio:device3'' \<rparr>"

definition trigger_dev :: GUdevDevice where
  "trigger_dev = \<lparr> subsystem = Some ''iio'',
                  sysfs_attr = (\<lambda>a. if a = ''name'' then Some ''accel_3d-dev3'' else None),
                  number = Some ''0'',
                  device_file = None \<rparr>"

definition bench_bd :: BufferDrvData where
  "bench_bd = \<lparr> scan_size = 8, layout = 0 \<rparr>"

definition bench_env :: "GIOChannel \<Rightarrow> open_env" where
  "bench_env channel =
     \<lparr> udev_devices = [accel_dev, trigger_dev],
       buffer_drv_data_new = (\<lambda>device trigger_name. Some bench_bd),
       g_io_channel_new_file = (\<lambda>path. Some channel),
       iconv_fails = (\<lambda>name. True),
       set_flags_status = G_IO_STATUS_NORMAL \<rparr>"

text \<open>
  An extraction for the bench: the x, y and z channels are bytes 0, 1 and 2 of the
  record, the scale is 1/10, and any other channel is absent and leaves the value
  and the scale as they were.
\<close>

definition bench_scan :: scan_fn where
  "bench_scan data bd name out =
     (let k = (if name = ''in_accel_x'' then Some 0
               else if name = ''in_accel_y'' then Some 1
               else if name = ''in_accel_z'' then Some (2::nat)
               else None)
      in case k of
           None \<Rightarrow> (fst out, fst (snd out), False)
         | Some i \<Rightarrow>
             (case drop i data of
                [] \<Rightarrow> (fst out, fst (snd out), False)
              | b # bs \<Rightarrow> (ucast b, 1 / 10, True)))"

definition bench_locals :: scan_locals where
  "bench_locals = \<lparr> l_accel_x = 0, l_accel_y = 0, l_accel_z = 0, l_scale = 0,
                    l_present_x = False, l_present_y = False, l_present_z = False \<rparr>"

text \<open>The session that \<open>open\<close> builds on the bench, with \<open>io_source\<close> as given.\<close>

definition bench_drv :: "GIOChannel \<Rightarrow> nat \<Rightarrow> DrvData" where
  "bench_drv channel src =
     \<lparr> gio_r = Some channel, io_source = src, callback_func = 1, user_data = 2,
       dev = Some accel_dev, dev_path = Some ''/dev/iio:device3'', device_id = 0,
       buffer_data = Some bench_bd \<rparr>"

text \<open>The world once the bench device is open and polled, nothing read yet.\<close>

definition bench_world :: "GIOChannel \<Rightarrow> world" where
  "bench_world channel =
     \<lparr> drv_data = Some (bench_drv channel 1), read_size_ctr = 0, last_source_id = 1,
       sources = [1],
       live = {#R_drv_data, R_buffer_data, R_device_ref, R_channel#},
       delivered = [] \<rparr>"

text \<open>
  The same bench with records of 16 bytes, as another device or another set of
  enabled channels gives.
\<close>

definition wide_bd :: BufferDrvData where
  "wide_bd = \<lparr> scan_size = 16, layout = 0 \<rparr>"

definition wide_env :: "GIOChannel \<Rightarrow> open_env" where
  "wide_env channel =
     \<lparr> udev_devices = [accel_dev, trigger_dev],
       buffer_drv_data_new = (\<lambda>device trigger_name. Some wide_bd),
       g_io_channel_new_file = (\<lambda>path. Some channel),
       iconv_fails = (\<lambda>name. True),
       set_flags_status = G_IO_STATUS_NORMAL \<rparr>"

definition wide_drv :: "GIOChannel \<Rightarrow> nat \<Rightarrow> DrvData" where
  "wide_drv channel src =
     \<lparr> gio_r = Some channel, io_source = src, callback_func = 1, user_data = 2,
       dev = Some accel_dev, dev_path = Some ''/dev/iio:device3'', device_id = 0,
       buffer_data = Some wide_bd \<rparr>"

text \<open>A registry without the trigger, and a collaborator that refuses the buffer.\<close>

definition no_trigger_env :: open_env where
  "no_trigger_env = (bench_env [])\<lparr>udev_devices := [accel_dev]\<rparr>"

definition no_buffer_env :: open_env where
  "no_buffer_env = (bench_env [])\<lparr>buffer_drv_data_new := (\<lambda>device trigger_name. None)\<rparr>"

text \<open>One run after another, and what a run shows to the host.\<close>

definition and_then ::
  "(fault + world) option \<Rightarrow> (world \<Rightarrow> (fault + world) option) \<Rightarrow> (fault + world) option" where
  "and_then r f =
     (case r of None \<Rightarrow> None | Some (Inl e) \<Rightarrow> Some (Inl e) | Some (Inr w) \<Rightarrow> f w)"

definition outcome_delivered ::
  "(fault + world) option \<Rightarrow> (fault + (nat \<times> AccelReadings \<times> nat) list) option" where
  "outcome_delivered r = map_option (map_sum id delivered) r"

definition outcome_ctr :: "(fault + world) option \<Rightarrow> (fault + gsize) option" where
  "outcome_ctr r = map_option (map_sum id read_size_ctr) r"

section \<open>Properties\<close>

subsection \<open>String comparison and the device matcher\<close>

lemma strcmp_eq_0: "strcmp s t = 0 \<longleftrightarrow> s = t"
  by (induction s t rule: strcmp.induct) auto

lemma g_strcmp0_eq_0: "g_strcmp0 a b = 0 \<longleftrightarrow> a = b"
  by (cases a; cases b) (simp_all add: strcmp_eq_0)

text \<open>
  C7. \<open>discover\<close> returns true exactly when the subsystem of the device is \<open>iio\<close>
  and its \<open>name\<close> attribute is \<open>accel_3d\<close>. A missing subsystem or attribute is
  \<open>None\<close> and gives false. The function reads its argument only: it takes no
  world and returns none.
\<close>

theorem discover_iff:
  "iio_buffer_accel_discover device \<longleftrightarrow>
     subsystem device = Some ''iio'' \<and> sysfs_attr device ''name'' = Some ''accel_3d''"
  unfolding iio_buffer_accel_discover_def g_strcmp0_eq_0 by auto

theorem discover_iff_witness:
  "iio_buffer_accel_discover accel_dev \<and> \<not> iio_buffer_accel_discover trigger_dev \<and>
   \<not> iio_buffer_accel_discover (accel_dev\<lparr>subsystem := None\<rparr>) \<and>
   \<not> iio_buffer_accel_discover (accel_dev\<lparr>sysfs_attr := (\<lambda>a. None)\<rparr>)"
  using discover_iff [of accel_dev] discover_iff [of trigger_dev]
    discover_iff [of "accel_dev\<lparr>subsystem := None\<rparr>"]
    discover_iff [of "accel_dev\<lparr>sysfs_attr := (\<lambda>a. None)\<rparr>"]
  by (simp add: accel_dev_def trigger_dev_def)

subsection \<open>The decode step\<close>

text \<open>
  C10. Whatever the three extractions leave in the shared variable on the way, the
  scale in all three products is the content of \<open>scale\<close> after the extraction of
  the z channel, and the callback is called once with these readings whatever the
  presence flags \<open>px\<close>, \<open>py\<close>, \<open>pz\<close> say.
\<close>

theorem process_scan_shared_scale:
  assumes "process_scan_1 data bd ''in_accel_x'' (l_accel_x l, l_scale l, l_present_x l) = (ax, sx, px)"
    and "process_scan_1 data bd ''in_accel_y'' (l_accel_y l, sx, l_present_y l) = (ay, sy, py)"
    and "process_scan_1 data bd ''in_accel_z'' (l_accel_z l, sy, l_present_z l) = (az, sz, pz)"
  shows "delivered (process_scan process_scan_1 l data or_data bd w) =
           delivered w @
             [(callback_func or_data,
               \<lparr> accel_x = real_of_int (sint (- ax)) * sz,
                 accel_y = real_of_int (sint (- ay)) * sz,
                 accel_z = real_of_int (sint az) * sz \<rparr>,
               user_data or_data)]"
  using assms by (simp add: process_scan_def scan_readings_def)

text \<open>
  On the bench, a record of two bytes has no z channel: the extraction reports it
  absent and leaves value and scale as they were, and the readings are delivered
  all the same, scaled by what the y extraction left.
\<close>

theorem process_scan_shared_scale_witness:
  "delivered (process_scan bench_scan bench_locals [10, 20] (bench_drv [] 1) bench_bd boot) =
     [(1, \<lparr> accel_x = - 1, accel_y = - 2, accel_z = 0 \<rparr>, 2)]"
proof -
  have x: "bench_scan [10, 20] bench_bd ''in_accel_x''
             (l_accel_x bench_locals, l_scale bench_locals, l_present_x bench_locals) =
           (10, 1 / 10, True)"
    by (simp add: bench_scan_def)
  have y: "bench_scan [10, 20] bench_bd ''in_accel_y''
             (l_accel_y bench_locals, 1 / 10, l_present_y bench_locals) = (20, 1 / 10, True)"
    by (simp add: bench_scan_def)
  have z: "bench_scan [10, 20] bench_bd ''in_accel_z''
             (l_accel_z bench_locals, 1 / 10, l_present_z bench_locals) = (0, 1 / 10, False)"
    by (simp add: bench_scan_def bench_locals_def)
  show ?thesis
    using process_scan_shared_scale
      [of bench_scan "[10, 20]" bench_bd bench_locals _ _ _ _ _ _ _ _ _ "bench_drv [] 1" boot,
       OF x y z]
    by (simp add: bench_drv_def boot_def)
qed

lemma sint_neg: "sint ax \<noteq> - (2 ^ 31) \<Longrightarrow> sint (- ax) = - sint ax" for ax :: "32 word"
proof -
  assume a: "sint ax \<noteq> - (2 ^ 31)"
  have lo: "- (2 ^ 31) \<le> sint ax"
    using sint_ge [of ax] by simp
  have hi: "sint ax < 2 ^ 31"
    using sint_lt [of ax] by simp
  have "sint (- ax) = signed_take_bit 31 (- sint ax)"
    by (simp add: sint_word_ariths)
  also have "\<dots> = - sint ax"
    using a lo hi by (simp add: signed_take_bit_int_eq_self)
  finally show ?thesis .
qed

text \<open>
  C5. For all raw values \<open>ax\<close>, \<open>ay\<close>, \<open>az\<close> and every scale \<open>s\<close> that the
  extractions give, the decode step yields the 32-bit negations of x and y and the
  unchanged z, each multiplied by \<open>s\<close>; unless a raw value is the least 32-bit
  integer this is \<open>- (ax * s)\<close> and \<open>- (ay * s)\<close>. In particular the raw values
  10, 20 and 30 with scale 0.1 give the readings (-1, -2, 3).
\<close>

theorem scan_readings_inverts_x_y:
  assumes "process_scan_1 data bd ''in_accel_x'' (l_accel_x l, l_scale l, l_present_x l) = (ax, sx, px)"
    and "process_scan_1 data bd ''in_accel_y'' (l_accel_y l, sx, l_present_y l) = (ay, sy, py)"
    and "process_scan_1 data bd ''in_accel_z'' (l_accel_z l, sy, l_present_z l) = (az, s, pz)"
  shows "scan_readings process_scan_1 l data bd =
           \<lparr> accel_x = real_of_int (sint (- ax)) * s,
             accel_y = real_of_int (sint (- ay)) * s,
             accel_z = real_of_int (sint az) * s \<rparr> \<and>
         (sint ax \<noteq> - (2 ^ 31) \<longrightarrow>
            accel_x (scan_readings process_scan_1 l data bd) = - (real_of_int (sint ax) * s)) \<and>
         (sint ay \<noteq> - (2 ^ 31) \<longrightarrow>
            accel_y (scan_readings process_scan_1 l data bd) = - (real_of_int (sint ay) * s)) \<and>
         (ax = 10 \<and> ay = 20 \<and> az = 30 \<and> s = 1 / 10 \<longrightarrow>
            scan_readings process_scan_1 l data bd =
              \<lparr> accel_x = - 1, accel_y = - 2, accel_z = 3 \<rparr>)"
proof -
  have eq: "scan_readings process_scan_1 l data bd =
              \<lparr> accel_x = real_of_int (sint (- ax)) * s,
                accel_y = real_of_int (sint (- ay)) * s,
                accel_z = real_of_int (sint az) * s \<rparr>"
    using assms by (simp add: scan_readings_def)
  have nx: "sint ax \<noteq> - (2 ^ 31) \<longrightarrow>
              accel_x (scan_readings process_scan_1 l data bd) = - (real_of_int (sint ax) * s)"
    by (simp add: eq sint_neg)
  have ny: "sint ay \<noteq> - (2 ^ 31) \<longrightarrow>
              accel_y (scan_readings process_scan_1 l data bd) = - (real_of_int (sint ay) * s)"
    by (simp add: eq sint_neg)
  have inst: "ax = 10 \<and> ay = 20 \<and> az = 30 \<and> s = 1 / 10 \<longrightarrow>
                scan_readings process_scan_1 l data bd =
                  \<lparr> accel_x = - 1, accel_y = - 2, accel_z = 3 \<rparr>"
    by (simp add: eq)
  from eq nx ny inst show ?thesis
    by blast
qed

text \<open>
  On the bench: the record that starts with 10, 20, 30 gives (-1, -2, 3), and the
  record that starts with 1, 2, 3 gives (-1/10, -2/10, 3/10).
\<close>

theorem scan_readings_inverts_x_y_witness:
  "scan_readings bench_scan bench_locals [10, 20, 30, 0, 0, 0, 0, 0] bench_bd =
     \<lparr> accel_x = - 1, accel_y = - 2, accel_z = 3 \<rparr> \<and>
   scan_readings bench_scan bench_locals [1, 2, 3, 0, 0, 0, 0, 0] bench_bd =
     \<lparr> accel_x = - (1 / 10), accel_y = - (2 / 10), accel_z = 3 / 10 \<rparr>"
proof -
  have x: "bench_scan [10, 20, 30, 0, 0, 0, 0, 0] bench_bd ''in_accel_x''
             (l_accel_x bench_locals, l_scale bench_locals, l_present_x bench_locals) =
           (10, 1 / 10, True)"
    by (simp add: bench_scan_def)
  have y: "bench_scan [10, 20, 30, 0, 0, 0, 0, 0] bench_bd ''in_accel_y''
             (l_accel_y bench_locals, 1 / 10, l_present_y bench_locals) = (20, 1 / 10, True)"
    by (simp add: bench_scan_def)
  have z: "bench_scan [10, 20, 30, 0, 0, 0, 0, 0] bench_bd ''in_accel_z''
             (l_accel_z bench_locals, 1 / 10, l_present_z bench_locals) = (30, 1 / 10, True)"
    by (simp add: bench_scan_def)
  have x': "bench_scan [1, 2, 3, 0, 0, 0, 0, 0] bench_bd ''in_accel_x''
              (l_accel_x bench_locals, l_scale bench_locals, l_present_x bench_locals) =
            (1, 1 / 10, True)"
    by (simp add: bench_scan_def)
  have y': "bench_scan [1, 2, 3, 0, 0, 0, 0, 0] bench_bd ''in_accel_y''
              (l_accel_y bench_locals, 1 / 10, l_present_y bench_locals) = (2, 1 / 10, True)"
    by (simp add: bench_scan_def)
  have z': "bench_scan [1, 2, 3, 0, 0, 0, 0, 0] bench_bd ''in_accel_z''
              (l_accel_z bench_locals, 1 / 10, l_present_z bench_locals) = (3, 1 / 10, True)"
    by (simp add: bench_scan_def)
  have a: "scan_readings bench_scan bench_locals [10, 20, 30, 0, 0, 0, 0, 0] bench_bd =
             \<lparr> accel_x = - 1, accel_y = - 2, accel_z = 3 \<rparr>"
    using scan_readings_inverts_x_y
      [of bench_scan "[10, 20, 30, 0, 0, 0, 0, 0]" bench_bd bench_locals, OF x y z]
    by simp
  have b: "scan_readings bench_scan bench_locals [1, 2, 3, 0, 0, 0, 0, 0] bench_bd =
             \<lparr> accel_x = - (1 / 10), accel_y = - (2 / 10), accel_z = 3 / 10 \<rparr>"
    using scan_readings_inverts_x_y
      [of bench_scan "[1, 2, 3, 0, 0, 0, 0, 0]" bench_bd bench_locals, OF x' y' z']
    by simp
  from a b show ?thesis
    by simp
qed

subsection \<open>The read loop\<close>

lemma read_chars_normal:
  assumes "g_io_channel_read_chars channel n = (G_IO_STATUS_NORMAL, buf, channel')" and "0 < n"
  shows "channel_weight channel' < channel_weight channel" and "buf \<noteq> []" and "length buf \<le> n"
  using assms
  by (auto simp: g_io_channel_read_chars_def channel_weight_def
           split: list.splits io_event.splits if_splits)

lemma scan_step_ctr:
  assumes "ctr < buf_size" and "scan_step buf_size ctr data buf = (ctr', data')"
  shows "ctr' < buf_size"
  using assms by (auto simp: scan_step_def Let_def split: if_splits)

lemma request_pos: "ctr < buf_size \<Longrightarrow> 0 < unat (buf_size - ctr)" for ctr :: gsize
  by (simp add: unat_gt_0)

text \<open>
  With the counter below the record size the request is never for zero bytes, each
  successful read shortens the channel, and the loop leaves: with a status other
  than normal and the counter still below the record size.
\<close>

lemma read_loop_returns:
  assumes "ctr < buf_size"
  shows "\<exists>status channel' ctr' data' hist'.
           read_loop buf_size channel ctr data hist =
             Some (status, channel', ctr', data', hist') \<and>
           status \<noteq> G_IO_STATUS_NORMAL \<and> ctr' < buf_size"
  using assms
proof (induction "channel_weight channel" arbitrary: channel ctr data hist rule: less_induct)
  case less
  obtain status buf channel1 where
    rd: "g_io_channel_read_chars channel (unat (buf_size - ctr)) = (status, buf, channel1)"
    by (cases "g_io_channel_read_chars channel (unat (buf_size - ctr))") auto
  show ?case
  proof (cases "status = G_IO_STATUS_NORMAL")
    case False
    then have "read_loop buf_size channel ctr data hist = Some (status, channel1, ctr, data, hist)"
      by (subst read_loop.simps) (simp add: rd)
    with False less.prems show ?thesis
      by blast
  next
    case True
    obtain ctr1 data1 where st: "scan_step buf_size ctr data buf = (ctr1, data1)"
      by (cases "scan_step buf_size ctr data buf") auto
    have lt: "channel_weight channel1 < channel_weight channel"
      using read_chars_normal(1) [OF rd [unfolded True] request_pos [OF less.prems]] .
    have c1: "ctr1 < buf_size"
      using scan_step_ctr [OF less.prems st] .
    have unf: "read_loop buf_size channel ctr data hist =
                 read_loop buf_size channel1 ctr1 data1 (hist @ [buf])"
      by (subst read_loop.simps) (simp add: rd True st)
    from less.hyps [OF lt c1, of data1 "hist @ [buf]"] show ?thesis
      unfolding unf .
  qed
qed

lemma short_read_incomplete:
  fixes ctr buf_size :: gsize
  assumes "0 < ctr" and "ctr < buf_size" and "length buf \<le> unat (buf_size - ctr)"
  shows "\<not> buf_size \<le> of_nat (length buf)" and "unat (of_nat (length buf) :: gsize) = length buf"
proof -
  have sub: "unat (buf_size - ctr) = unat buf_size - unat ctr"
    using assms(2) by (simp add: unat_sub less_imp_le)
  have pos: "0 < unat ctr"
    using assms(1) by (simp add: unat_gt_0)
  have lt: "unat ctr < unat buf_size"
    using assms(2) by (simp add: word_less_nat_alt)
  have n: "length buf < unat buf_size"
    using assms(3) sub pos lt by arith
  have bound: "unat buf_size < 2 ^ LENGTH(64)"
    by (rule unsigned_less)
  show u: "unat (of_nat (length buf) :: gsize) = length buf"
    using n bound by (simp add: unat_of_nat)
  show "\<not> buf_size \<le> of_nat (length buf)"
    using n u by (simp add: word_le_nat_alt)
qed

lemma scan_step_partial:
  fixes ctr buf_size :: gsize
  assumes "0 < ctr" and "ctr < buf_size" and "length buf \<le> unat (buf_size - ctr)"
  shows "\<exists>ctr'. scan_step buf_size ctr data buf = (ctr', data) \<and> 0 < ctr' \<and> ctr' < buf_size"
proof -
  note sr = short_read_incomplete [OF assms]
  have sub: "unat (buf_size - ctr) = unat buf_size - unat ctr"
    using assms(2) by (simp add: unat_sub less_imp_le)
  have lt: "unat ctr < unat buf_size"
    using assms(2) by (simp add: word_less_nat_alt)
  have bound: "unat buf_size < 2 ^ LENGTH(64)"
    by (rule unsigned_less)
  have sum: "unat ctr + length buf < 2 ^ LENGTH(64)"
    using assms(3) sub lt bound by arith
  have add: "unat (ctr + of_nat (length buf)) = unat ctr + length buf"
    using sum sr(2) by (simp add: unat_add_lem [THEN iffD1])
  have pos: "0 < unat ctr"
    using assms(1) by (simp add: unat_gt_0)
  have "0 < ctr + of_nat (length buf)"
    using add pos by (simp add: word_less_nat_alt)
  then show ?thesis
    using sr(1) assms(1,2) by (auto simp: scan_step_def Let_def)
qed

text \<open>
  Once the counter is above 0 the reader is stuck: every read is shorter than a
  record, so nothing is captured, and the counter never returns to 0.
\<close>

lemma read_loop_stuck:
  assumes "0 < ctr" and "ctr < buf_size"
  shows "\<exists>status channel' ctr' hist'.
           read_loop buf_size channel ctr data hist = Some (status, channel', ctr', data, hist') \<and>
           0 < ctr' \<and> ctr' < buf_size"
  using assms
proof (induction "channel_weight channel" arbitrary: channel ctr hist rule: less_induct)
  case less
  obtain status buf channel1 where
    rd: "g_io_channel_read_chars channel (unat (buf_size - ctr)) = (status, buf, channel1)"
    by (cases "g_io_channel_read_chars channel (unat (buf_size - ctr))") auto
  show ?case
  proof (cases "status = G_IO_STATUS_NORMAL")
    case False
    then have "read_loop buf_size channel ctr data hist = Some (status, channel1, ctr, data, hist)"
      by (subst read_loop.simps) (simp add: rd)
    with less.prems show ?thesis by blast
  next
    case True
    note rn = read_chars_normal [OF rd [unfolded True] request_pos [OF less.prems(2)] ]
    from scan_step_partial [OF less.prems rn(3), of data]
    obtain ctr1 where st: "scan_step buf_size ctr data buf = (ctr1, data)"
      and c1: "0 < ctr1" "ctr1 < buf_size"
      by blast
    have unf: "read_loop buf_size channel ctr data hist =
                 read_loop buf_size channel1 ctr1 data (hist @ [buf])"
      by (subst read_loop.simps) (simp add: rd True st)
    from less.hyps [OF rn(1) c1, of "hist @ [buf]"] show ?thesis
      unfolding unf .
  qed
qed

text \<open>An invocation keeps the session and its buffer data.\<close>

lemma read_orientation_session:
  assumes "drv_data w = Some or_data" and "buffer_data or_data = Some bd"
    and "read_orientation process_scan_1 l condition w = Some (Inr w')"
  shows "\<exists>or_data'. drv_data w' = Some or_data' \<and> buffer_data or_data' = Some bd"
  using assms
  by (auto simp: read_orientation_def process_scan_def Let_def
           split: option.splits if_splits)

lemma read_orientation_counter:
  assumes "drv_data w = Some or_data" and "buffer_data or_data = Some bd"
    and "read_size_ctr w < scan_size bd"
  shows "\<exists>r. read_orientation process_scan_1 l G_IO_IN w = Some r \<and>
             (case r of Inl f \<Rightarrow> True | Inr w' \<Rightarrow> read_size_ctr w' < scan_size bd)"
proof (cases "gio_r or_data")
  case None
  then show ?thesis
    by (simp add: read_orientation_def assms(1,2))
next
  case (Some channel)
  from read_loop_returns [OF assms(3), of channel None "[]"]
  obtain status channel' ctr' data' hist' where
    loop: "read_loop (scan_size bd) channel (read_size_ctr w) None [] =
             Some (status, channel', ctr', data', hist')"
    and ok: "ctr' < scan_size bd"
    by blast
  show ?thesis
    using ok
    by (cases data')
       (simp_all add: read_orientation_def assms(1,2) Some loop process_scan_def Let_def)
qed

text \<open>
  Inside one session the counter stays below the record size once it is below it:
  every invocation returns (or ends the process on a failed assertion) and leaves
  it so.
\<close>

lemma counter_kept_in_session:
  assumes "drv_data w = Some or_data" and "buffer_data or_data = Some bd"
    and "read_size_ctr w < scan_size bd"
  shows "\<exists>r. dispatch process_scan_1 l n w = Some r \<and>
             (case r of Inl f \<Rightarrow> True | Inr w' \<Rightarrow> read_size_ctr w' < scan_size bd)"
  using assms
proof (induction n arbitrary: w or_data)
  case 0
  then show ?case by simp
next
  case (Suc n)
  from read_orientation_counter [OF Suc.prems, of process_scan_1 l]
  obtain r where r: "read_orientation process_scan_1 l G_IO_IN w = Some r"
    and inv: "case r of Inl f \<Rightarrow> True | Inr w' \<Rightarrow> read_size_ctr w' < scan_size bd"
    by blast
  show ?case
  proof (cases r)
    case (Inl f)
    then show ?thesis by (simp add: r)
  next
    case (Inr w')
    from read_orientation_session [OF Suc.prems(1,2) r [unfolded Inr]]
    obtain or_data' where s: "drv_data w' = Some or_data'" "buffer_data or_data' = Some bd"
      by blast
    from inv Inr have c: "read_size_ctr w' < scan_size bd" by simp
    from Suc.IH [OF s c] show ?thesis by (simp add: r Inr)
  qed
qed

subsection \<open>Sessions on the bench\<close>

lemma bench_trigger:
  "get_trigger_name [accel_dev, trigger_dev] accel_dev = Some ''accel_3d-dev3''"
  by (simp add: get_trigger_name_def accel_dev_def trigger_dev_def printf_s_def)

lemma open_bench:
  "iio_buffer_accel_open (bench_env ch) accel_dev 1 2 w =
     Inr (True, w\<lparr>drv_data := Some (bench_drv ch 0),
                  live := live w + {#R_drv_data, R_buffer_data, R_device_ref, R_channel#}\<rparr>)"
  apply (simp add: iio_buffer_accel_open_def bench_env_def bench_trigger
        g_io_channel_set_encoding_def Let_def)
  apply (simp add: upd_drv_def allocate_def release_def new0_DrvData_def bench_drv_def)
  apply (simp add: accel_dev_def)
  done

lemma polling_on_bench:
  "drv_data w = Some (bench_drv ch 0) \<Longrightarrow>
   iio_buffer_accel_set_polling True w =
     Inr (w\<lparr>drv_data := Some (bench_drv ch (Suc (last_source_id w))),
            last_source_id := Suc (last_source_id w),
            sources := Suc (last_source_id w) # sources w\<rparr>)"
  by (simp add: iio_buffer_accel_set_polling_def bench_drv_def g_io_add_watch_def upd_drv_def Let_def)

lemma close_bench:
  "drv_data w = Some (bench_drv ch src) \<Longrightarrow> 0 < src \<Longrightarrow>
   iio_buffer_accel_close w =
     Inr (w\<lparr>drv_data := None, sources := remove1 src (sources w),
            live := live w - {#R_buffer_data#} - {#R_channel#} - {#R_device_ref#} - {#R_drv_data#}\<rparr>)"
  apply (simp add: iio_buffer_accel_close_def iio_buffer_accel_set_polling_def bench_drv_def
        g_source_remove_def upd_drv_def Let_def)
  apply (simp add: clear_drv_data_def release_def upd_drv_def bench_bd_def accel_dev_def)
  done

lemma read_orientation_bench:
  assumes "drv_data w = Some (bench_drv ch src)"
    and "read_loop 8 ch (read_size_ctr w) None [] = Some (G_IO_STATUS_AGAIN, ch', ctr', data, hist)"
  shows "read_orientation process_scan_1 l G_IO_IN w =
           Some (Inr (case data of
                        None \<Rightarrow> w\<lparr>drv_data := Some (bench_drv ch' src), read_size_ctr := ctr'\<rparr>
                      | Some scan \<Rightarrow>
                          process_scan process_scan_1 l scan (bench_drv ch src) bench_bd
                            (w\<lparr>drv_data := Some (bench_drv ch' src), read_size_ctr := ctr'\<rparr>)))"
  using assms
  by (cases data) (simp_all add: read_orientation_def bench_drv_def bench_bd_def Let_def)

text \<open>A session of the bench host, from a world without a session.\<close>

lemma run_session_bench:
  "run_session process_scan_1 l (bench_env ch) accel_dev n w =
     (case dispatch process_scan_1 l n
             (w\<lparr>live := live w + {#R_drv_data, R_buffer_data, R_device_ref, R_channel#},
                drv_data := Some (bench_drv ch (Suc (last_source_id w))),
                last_source_id := Suc (last_source_id w),
                sources := Suc (last_source_id w) # sources w\<rparr>) of
        None \<Rightarrow> None
      | Some (Inl f) \<Rightarrow> Some (Inl f)
      | Some (Inr w3) \<Rightarrow> Some (iio_buffer_accel_close w3))"
  unfolding run_session_def open_bench
  by (simp add: polling_on_bench)

text \<open>The bench world is what \<open>open\<close> and \<open>set_polling\<close> make of the first state.\<close>

lemma bench_world_reached:
  "iio_buffer_accel_open (bench_env ch) accel_dev 1 2 boot =
     Inr (True, (bench_world ch)\<lparr>drv_data := Some (bench_drv ch 0), last_source_id := 0,
                                 sources := []\<rparr>) \<and>
   iio_buffer_accel_set_polling True
     ((bench_world ch)\<lparr>drv_data := Some (bench_drv ch 0), last_source_id := 0,
                       sources := []\<rparr>) = Inr (bench_world ch)"
proof -
  have a: "iio_buffer_accel_open (bench_env ch) accel_dev 1 2 boot =
             Inr (True, (bench_world ch)\<lparr>drv_data := Some (bench_drv ch 0),
                                         last_source_id := 0, sources := []\<rparr>)"
    unfolding open_bench by (simp add: boot_def bench_world_def)
  have b: "iio_buffer_accel_set_polling True
             ((bench_world ch)\<lparr>drv_data := Some (bench_drv ch 0), last_source_id := 0,
                               sources := []\<rparr>) = Inr (bench_world ch)"
    using polling_on_bench
      [of "(bench_world ch)\<lparr>drv_data := Some (bench_drv ch 0), last_source_id := 0,
                              sources := []\<rparr>" ch]
    by (simp add: bench_world_def)
  from a b show ?thesis
    by simp
qed

text \<open>The same steps with records of 16 bytes.\<close>

lemma open_wide:
  "iio_buffer_accel_open (wide_env ch) accel_dev 1 2 w =
     Inr (True, w\<lparr>drv_data := Some (wide_drv ch 0),
                  live := live w + {#R_drv_data, R_buffer_data, R_device_ref, R_channel#}\<rparr>)"
  apply (simp add: iio_buffer_accel_open_def wide_env_def bench_trigger
        g_io_channel_set_encoding_def Let_def)
  apply (simp add: upd_drv_def allocate_def release_def new0_DrvData_def wide_drv_def)
  apply (simp add: accel_dev_def)
  done

lemma polling_on_wide:
  "drv_data w = Some (wide_drv ch 0) \<Longrightarrow>
   iio_buffer_accel_set_polling True w =
     Inr (w\<lparr>drv_data := Some (wide_drv ch (Suc (last_source_id w))),
            last_source_id := Suc (last_source_id w),
            sources := Suc (last_source_id w) # sources w\<rparr>)"
  by (simp add: iio_buffer_accel_set_polling_def wide_drv_def g_io_add_watch_def upd_drv_def Let_def)

lemma close_wide:
  "drv_data w = Some (wide_drv ch src) \<Longrightarrow> 0 < src \<Longrightarrow>
   iio_buffer_accel_close w =
     Inr (w\<lparr>drv_data := None, sources := remove1 src (sources w),
            live := live w - {#R_buffer_data#} - {#R_channel#} - {#R_device_ref#} - {#R_drv_data#}\<rparr>)"
  apply (simp add: iio_buffer_accel_close_def iio_buffer_accel_set_polling_def wide_drv_def
        g_source_remove_def upd_drv_def Let_def)
  apply (simp add: clear_drv_data_def release_def upd_drv_def wide_bd_def accel_dev_def)
  done

lemma read_orientation_wide:
  assumes "drv_data w = Some (wide_drv ch src)"
    and "read_loop 16 ch (read_size_ctr w) None [] = Some (G_IO_STATUS_AGAIN, ch', ctr', data, hist)"
  shows "read_orientation process_scan_1 l G_IO_IN w =
           Some (Inr (case data of
                        None \<Rightarrow> w\<lparr>drv_data := Some (wide_drv ch' src), read_size_ctr := ctr'\<rparr>
                      | Some scan \<Rightarrow>
                          process_scan process_scan_1 l scan (wide_drv ch src) wide_bd
                            (w\<lparr>drv_data := Some (wide_drv ch' src), read_size_ctr := ctr'\<rparr>)))"
  using assms
  by (cases data) (simp_all add: read_orientation_def wide_drv_def wide_bd_def Let_def)

lemma run_session_wide:
  "run_session process_scan_1 l (wide_env ch) accel_dev n w =
     (case dispatch process_scan_1 l n
             (w\<lparr>live := live w + {#R_drv_data, R_buffer_data, R_device_ref, R_channel#},
                drv_data := Some (wide_drv ch (Suc (last_source_id w))),
                last_source_id := Suc (last_source_id w),
                sources := Suc (last_source_id w) # sources w\<rparr>) of
        None \<Rightarrow> None
      | Some (Inl f) \<Rightarrow> Some (Inl f)
      | Some (Inr w3) \<Rightarrow> Some (iio_buffer_accel_close w3))"
  unfolding run_session_def open_wide
  by (simp add: polling_on_wide)

text \<open>
  C2. A read of 5 bytes that takes the counter from 3 to the record size 8 leaves
  the counter at 3: line 90 takes the bytes just read back instead of starting the
  next record at 0. The record is not captured either, since line 91 looks at the
  size of the read alone.
\<close>

theorem completing_read_keeps_counter:
  "scan_step 8 3 None [4, 5, 6, 7, 8] = (3, None)"
  by (simp add: scan_step_def)

text \<open>
  C1. A record of 8 bytes that arrives as 3 bytes and then 5 bytes, one readiness
  notification each: the host that opens the device, polls, takes both
  notifications and closes has received no callback.
\<close>

theorem split_record_never_delivered:
  "outcome_delivered
     (run_session bench_scan bench_locals
        (bench_env [Avail [1, 2, 3], Blocked, Avail [4, 5, 6, 7, 8], Blocked])
        accel_dev (Suc (Suc 0)) boot) = Some (Inr [])"
proof -
  let ?w = "\<lambda>ch c. \<lparr> drv_data = Some (bench_drv ch (Suc 0)), read_size_ctr = c,
                      last_source_id = Suc 0, sources = [Suc 0],
                      live = {#R_drv_data, R_buffer_data, R_device_ref, R_channel#},
                      delivered = [] \<rparr>"
  have l1: "read_loop 8 [Avail [1, 2, 3], Blocked, Avail [4, 5, 6, 7, 8], Blocked] 0 None [] =
              Some (G_IO_STATUS_AGAIN, [Avail [4, 5, 6, 7, 8], Blocked], 3, None, [ [1, 2, 3] ])"
    by (simp add: read_loop.simps scan_step_def g_io_channel_read_chars_def)
  have l2: "read_loop 8 [Avail [4, 5, 6, 7, 8], Blocked] 3 None [] =
              Some (G_IO_STATUS_AGAIN, [], 3, None, [ [4, 5, 6, 7, 8] ])"
    by (simp add: read_loop.simps scan_step_def g_io_channel_read_chars_def)
  have s1: "read_orientation bench_scan bench_locals G_IO_IN
              (?w [Avail [1, 2, 3], Blocked, Avail [4, 5, 6, 7, 8], Blocked] 0) =
            Some (Inr (?w [Avail [4, 5, 6, 7, 8], Blocked] 3))"
    using read_orientation_bench
      [of "?w [Avail [1, 2, 3], Blocked, Avail [4, 5, 6, 7, 8], Blocked] 0" _ "Suc 0"
          "[Avail [4, 5, 6, 7, 8], Blocked]" 3 None "[ [1, 2, 3] ]" bench_scan bench_locals]
    by (simp add: l1)
  have s2: "read_orientation bench_scan bench_locals G_IO_IN (?w [Avail [4, 5, 6, 7, 8], Blocked] 3) =
            Some (Inr (?w [] 3))"
    using read_orientation_bench
      [of "?w [Avail [4, 5, 6, 7, 8], Blocked] 3" _ "Suc 0" "[]" 3 None "[ [4, 5, 6, 7, 8] ]"
          bench_scan bench_locals]
    by (simp add: l2)
  have c: "iio_buffer_accel_close (?w [] 3) =
             Inr \<lparr> drv_data = None, read_size_ctr = 3, last_source_id = Suc 0, sources = [],
                   live = {#}, delivered = [] \<rparr>"
    using close_bench [of "?w [] 3" "[]" "Suc 0"] by simp
  show ?thesis
    by (simp add: run_session_bench boot_def s1 s2 c outcome_delivered_def)
qed


text \<open>
  C4. A whole record of 8 bytes read within one invocation, as 3 bytes and then 5
  bytes, with the counter at 0 on entry: the accumulated count reaches the record
  size at the second read, and the invocation ends without a call of the callback.
\<close>

theorem record_completed_in_two_reads_not_delivered:
  "outcome_delivered
     (read_orientation bench_scan bench_locals G_IO_IN
        (bench_world [Avail [1, 2, 3], Avail [4, 5, 6, 7, 8], Blocked])) = Some (Inr [])"
proof -
  have loop: "read_loop 8 [Avail [1, 2, 3], Avail [4, 5, 6, 7, 8], Blocked] 0 None [] =
                Some (G_IO_STATUS_AGAIN, [], 3, None, [ [1, 2, 3], [4, 5, 6, 7, 8] ])"
    by (simp add: read_loop.simps scan_step_def g_io_channel_read_chars_def)
  have "read_orientation bench_scan bench_locals G_IO_IN
          (bench_world [Avail [1, 2, 3], Avail [4, 5, 6, 7, 8], Blocked]) =
        Some (Inr ((bench_world [])\<lparr>read_size_ctr := 3\<rparr>))"
    using read_orientation_bench
      [of "bench_world [Avail [1, 2, 3], Avail [4, 5, 6, 7, 8], Blocked]" _ 1 "[]" 3 None
          "[ [1, 2, 3], [4, 5, 6, 7, 8] ]" bench_scan bench_locals]
    by (simp add: loop bench_world_def)
  then show ?thesis
    by (simp add: outcome_delivered_def bench_world_def)
qed

text \<open>
  C3. A first session with records of 16 bytes reads 10 bytes and is closed; the
  counter is 10. The next session has records of 8 bytes: its invocation starts
  with the counter at 10 and ends with the counter at 10, not below the record
  size 8.
\<close>

theorem counter_carried_above_record_size:
  "outcome_ctr
     (run_session bench_scan bench_locals
        (wide_env [Avail [1, 2, 3, 4, 5, 6, 7, 8, 9, 10], Blocked]) accel_dev (Suc 0) boot) =
     Some (Inr 10) \<and>
   outcome_ctr
     (and_then
        (run_session bench_scan bench_locals
           (wide_env [Avail [1, 2, 3, 4, 5, 6, 7, 8, 9, 10], Blocked]) accel_dev (Suc 0) boot)
        (run_session bench_scan bench_locals
           (bench_env [Avail [1, 2, 3], Blocked]) accel_dev (Suc 0))) =
     Some (Inr 10) \<and>
   scan_size bench_bd \<le> 10"
proof -
  let ?ten = "[Avail [1, 2, 3, 4, 5, 6, 7, 8, 9, 10], Blocked]"
  let ?ww = "\<lambda>ch c. \<lparr> drv_data = Some (wide_drv ch (Suc 0)), read_size_ctr = c,
                       last_source_id = Suc 0, sources = [Suc 0],
                       live = {#R_drv_data, R_buffer_data, R_device_ref, R_channel#},
                       delivered = [] \<rparr>"
  let ?bw = "\<lambda>ch c. \<lparr> drv_data = Some (bench_drv ch (Suc (Suc 0))), read_size_ctr = c,
                       last_source_id = Suc (Suc 0), sources = [Suc (Suc 0)],
                       live = {#R_drv_data, R_buffer_data, R_device_ref, R_channel#},
                       delivered = [] \<rparr>"
  let ?closed = "\<lambda>c i. \<lparr> drv_data = None, read_size_ctr = c, last_source_id = i,
                        sources = [], live = {#}, delivered = [] \<rparr>"
  have l1: "read_loop 16 ?ten 0 None [] =
              Some (G_IO_STATUS_AGAIN, [], 10, None, [ [1, 2, 3, 4, 5, 6, 7, 8, 9, 10] ])"
    by (simp add: read_loop.simps scan_step_def g_io_channel_read_chars_def)
  have l2: "read_loop 8 [Avail [1, 2, 3], Blocked] 10 None [] =
              Some (G_IO_STATUS_AGAIN, [], 10, None, [ [1, 2, 3] ])"
    by (simp add: read_loop.simps scan_step_def g_io_channel_read_chars_def)
  have a1: "read_orientation bench_scan bench_locals G_IO_IN (?ww ?ten 0) =
              Some (Inr (?ww [] 10))"
    using read_orientation_wide
      [of "?ww ?ten 0" _ "Suc 0" "[]" 10 None "[ [1, 2, 3, 4, 5, 6, 7, 8, 9, 10] ]"
          bench_scan bench_locals]
    by (simp add: l1)
  have a2: "iio_buffer_accel_close (?ww [] 10) = Inr (?closed 10 (Suc 0))"
    using close_wide [of "?ww [] 10" "[]" "Suc 0"] by simp
  have first: "run_session bench_scan bench_locals (wide_env ?ten) accel_dev (Suc 0) boot =
                 Some (Inr (?closed 10 (Suc 0)))"
    using a1 a2 by (simp add: run_session_wide boot_def)
  have b1: "read_orientation bench_scan bench_locals G_IO_IN (?bw [Avail [1, 2, 3], Blocked] 10) =
              Some (Inr (?bw [] 10))"
    using read_orientation_bench
      [of "?bw [Avail [1, 2, 3], Blocked] 10" _ "Suc (Suc 0)" "[]" 10 None "[ [1, 2, 3] ]"
          bench_scan bench_locals]
    by (simp add: l2)
  have b2: "iio_buffer_accel_close (?bw [] 10) = Inr (?closed 10 (Suc (Suc 0)))"
    using close_bench [of "?bw [] 10" "[]" "Suc (Suc 0)"] by simp
  have second: "run_session bench_scan bench_locals (bench_env [Avail [1, 2, 3], Blocked])
                  accel_dev (Suc 0) (?closed 10 (Suc 0)) =
                Some (Inr (?closed 10 (Suc (Suc 0))))"
    using b1 b2 by (simp add: run_session_bench)
  have sz: "scan_size bench_bd \<le> 10"
    by (simp add: bench_bd_def)
  show ?thesis
    by (simp add: first and_then_def second outcome_ctr_def sz)
qed

text \<open>
  Neither \<open>open\<close> nor \<open>set_polling\<close> nor \<open>close\<close> writes \<open>read_size_ctr\<close>: a session
  starts with the count its predecessor left.
\<close>

lemma open_keeps_counter:
  assumes "iio_buffer_accel_open env device cb ud w = Inr (ok, w')"
  shows "read_size_ctr w' = read_size_ctr w"
  using assms
  by (auto simp: iio_buffer_accel_open_def clear_drv_data_def allocate_def release_def
        upd_drv_def Let_def split: option.splits if_splits)

lemma set_polling_keeps_counter:
  assumes "iio_buffer_accel_set_polling state w = Inr w'"
  shows "read_size_ctr w' = read_size_ctr w"
  using assms
  by (auto simp: iio_buffer_accel_set_polling_def g_io_add_watch_def g_source_remove_def
        upd_drv_def Let_def split: option.splits if_splits)

lemma close_keeps_counter:
  assumes "iio_buffer_accel_close w = Inr w'"
  shows "read_size_ctr w' = read_size_ctr w"
proof -
  from assms obtain w1 where p: "iio_buffer_accel_set_polling False w = Inr w1"
    by (auto simp: iio_buffer_accel_close_def split: sum.splits)
  have "read_size_ctr w' = read_size_ctr w1"
    using assms p
    by (auto simp: iio_buffer_accel_close_def clear_drv_data_def release_def upd_drv_def
          Let_def split: option.splits if_splits)
  with set_polling_keeps_counter [OF p] show ?thesis by simp
qed

text \<open>
  C9. The same record of 8 bytes, offered in one piece. A host that opens the
  device for the first time receives its readings. A host that opens it after an
  earlier session which was closed with 3 bytes of a record read receives nothing:
  \<open>read_size_ctr\<close> is still 3, so the reader asks for 5 bytes, then for 5 again.
\<close>

theorem reopened_session_differs:
  "outcome_delivered
     (run_session bench_scan bench_locals
        (bench_env [Avail [10, 20, 30, 0, 0, 0, 0, 0], Blocked]) accel_dev (Suc 0) boot) =
     Some (Inr [(1, \<lparr> accel_x = - 1, accel_y = - 2, accel_z = 3 \<rparr>, 2)]) \<and>
   outcome_delivered
     (and_then
        (run_session bench_scan bench_locals
           (bench_env [Avail [1, 2, 3], Blocked]) accel_dev (Suc 0) boot)
        (run_session bench_scan bench_locals
           (bench_env [Avail [10, 20, 30, 0, 0, 0, 0, 0], Blocked]) accel_dev (Suc 0))) =
     Some (Inr [])"
proof -
  let ?whole = "[Avail [10, 20, 30, 0, 0, 0, 0, 0], Blocked]"
  let ?w = "\<lambda>ch c i. \<lparr> drv_data = Some (bench_drv ch i), read_size_ctr = c,
                        last_source_id = i, sources = [i],
                        live = {#R_drv_data, R_buffer_data, R_device_ref, R_channel#},
                        delivered = [] \<rparr>"
  let ?closed = "\<lambda>c i dl. \<lparr> drv_data = None, read_size_ctr = c, last_source_id = i,
                           sources = [], live = {#}, delivered = dl \<rparr>"
  have rd: "scan_readings bench_scan bench_locals [10, 20, 30, 0, 0, 0, 0, 0] bench_bd =
              \<lparr> accel_x = - 1, accel_y = - 2, accel_z = 3 \<rparr>"
    by (simp add: scan_readings_def bench_scan_def bench_locals_def)
  have l0: "read_loop 8 ?whole 0 None [] =
              Some (G_IO_STATUS_AGAIN, [], 0, Some [10, 20, 30, 0, 0, 0, 0, 0],
                    [ [10, 20, 30, 0, 0, 0, 0, 0] ])"
    by (simp add: read_loop.simps scan_step_def g_io_channel_read_chars_def)
  have l1: "read_loop 8 [Avail [1, 2, 3], Blocked] 0 None [] =
              Some (G_IO_STATUS_AGAIN, [], 3, None, [ [1, 2, 3] ])"
    by (simp add: read_loop.simps scan_step_def g_io_channel_read_chars_def)
  have l2: "read_loop 8 ?whole 3 None [] =
              Some (G_IO_STATUS_AGAIN, [], 6, None, [ [10, 20, 30, 0, 0], [0, 0, 0] ])"
    by (simp add: read_loop.simps scan_step_def g_io_channel_read_chars_def)
  have a1: "read_orientation bench_scan bench_locals G_IO_IN (?w ?whole 0 (Suc 0)) =
              Some (Inr ((?w [] 0 (Suc 0))
                \<lparr>delivered := [(1, \<lparr> accel_x = - 1, accel_y = - 2, accel_z = 3 \<rparr>, 2)]\<rparr>))"
    using read_orientation_bench
      [of "?w ?whole 0 (Suc 0)" _ "Suc 0" "[]" 0 "Some [10, 20, 30, 0, 0, 0, 0, 0]"
          "[ [10, 20, 30, 0, 0, 0, 0, 0] ]" bench_scan bench_locals]
    by (simp add: l0 process_scan_def rd bench_drv_def)
  have a2: "iio_buffer_accel_close ((?w [] 0 (Suc 0))
              \<lparr>delivered := [(1, \<lparr> accel_x = - 1, accel_y = - 2, accel_z = 3 \<rparr>, 2)]\<rparr>) =
            Inr (?closed 0 (Suc 0) [(1, \<lparr> accel_x = - 1, accel_y = - 2, accel_z = 3 \<rparr>, 2)])"
    using close_bench [of "(?w [] 0 (Suc 0))
              \<lparr>delivered := [(1, \<lparr> accel_x = - 1, accel_y = - 2, accel_z = 3 \<rparr>, 2)]\<rparr>"
            "[]" "Suc 0"]
    by simp
  have fresh: "run_session bench_scan bench_locals (bench_env ?whole) accel_dev (Suc 0) boot =
                 Some (Inr (?closed 0 (Suc 0)
                   [(1, \<lparr> accel_x = - 1, accel_y = - 2, accel_z = 3 \<rparr>, 2)]))"
    using a1 a2 by (simp add: run_session_bench boot_def)
  have b1: "read_orientation bench_scan bench_locals G_IO_IN
              (?w [Avail [1, 2, 3], Blocked] 0 (Suc 0)) = Some (Inr (?w [] 3 (Suc 0)))"
    using read_orientation_bench
      [of "?w [Avail [1, 2, 3], Blocked] 0 (Suc 0)" _ "Suc 0" "[]" 3 None "[ [1, 2, 3] ]"
          bench_scan bench_locals]
    by (simp add: l1)
  have b2: "iio_buffer_accel_close (?w [] 3 (Suc 0)) = Inr (?closed 3 (Suc 0) [])"
    using close_bench [of "?w [] 3 (Suc 0)" "[]" "Suc 0"] by simp
  have first: "run_session bench_scan bench_locals (bench_env [Avail [1, 2, 3], Blocked])
                 accel_dev (Suc 0) boot = Some (Inr (?closed 3 (Suc 0) []))"
    using b1 b2 by (simp add: run_session_bench boot_def)
  have c1: "read_orientation bench_scan bench_locals G_IO_IN (?w ?whole 3 (Suc (Suc 0))) =
              Some (Inr (?w [] 6 (Suc (Suc 0))))"
    using read_orientation_bench
      [of "?w ?whole 3 (Suc (Suc 0))" _ "Suc (Suc 0)" "[]" 6 None
          "[ [10, 20, 30, 0, 0], [0, 0, 0] ]" bench_scan bench_locals]
    by (simp add: l2)
  have c2: "iio_buffer_accel_close (?w [] 6 (Suc (Suc 0))) = Inr (?closed 6 (Suc (Suc 0)) [])"
    using close_bench [of "?w [] 6 (Suc (Suc 0))" "[]" "Suc (Suc 0)"] by simp
  have second: "run_session bench_scan bench_locals (bench_env ?whole) accel_dev (Suc 0)
                  (?closed 3 (Suc 0) []) = Some (Inr (?closed 6 (Suc (Suc 0)) []))"
    using c1 c2 by (simp add: run_session_bench)
  show ?thesis
    by (simp add: fresh first and_then_def second outcome_delivered_def)
qed

subsection \<open>The poll controller\<close>

text \<open>
  C6. On an open session whose attached sources are what \<open>io_source\<close> says:
  enabling polling returns a world in which enabling again changes nothing and
  exactly one source is attached; disabling returns a world in which disabling
  again changes nothing and no source is attached; disabling when \<open>io_source\<close> is
  0 changes nothing at all. Both calls keep the sources in step with
  \<open>io_source\<close>, so that there is never more than one.
\<close>

theorem set_polling_idempotent:
  assumes "drv_data w = Some d" and "one_registration w"
  shows "(\<exists>w1. iio_buffer_accel_set_polling True w = Inr w1 \<and>
               iio_buffer_accel_set_polling True w1 = Inr w1 \<and>
               length (sources w1) = 1 \<and> one_registration w1) \<and>
         (\<exists>w0. iio_buffer_accel_set_polling False w = Inr w0 \<and>
               iio_buffer_accel_set_polling False w0 = Inr w0 \<and>
               sources w0 = [] \<and> one_registration w0) \<and>
         (io_source d = 0 \<longrightarrow> iio_buffer_accel_set_polling False w = Inr w)"
  using assms
  by (cases "io_source d = 0")
     (simp_all add: iio_buffer_accel_set_polling_def one_registration_def g_io_add_watch_def
        g_source_remove_def upd_drv_def Let_def)

theorem set_polling_idempotent_witness:
  "one_registration ((bench_world [])\<lparr>drv_data := Some (bench_drv [] 0), sources := []\<rparr>) \<and>
   iio_buffer_accel_set_polling True
     ((bench_world [])\<lparr>drv_data := Some (bench_drv [] 0), sources := []\<rparr>) =
     Inr ((bench_world [])\<lparr>drv_data := Some (bench_drv [] 2), last_source_id := 2,
                           sources := [2]\<rparr>) \<and>
   iio_buffer_accel_set_polling True
     ((bench_world [])\<lparr>drv_data := Some (bench_drv [] 2), last_source_id := 2,
                       sources := [2]\<rparr>) =
     Inr ((bench_world [])\<lparr>drv_data := Some (bench_drv [] 2), last_source_id := 2,
                           sources := [2]\<rparr>) \<and>
   iio_buffer_accel_set_polling False
     ((bench_world [])\<lparr>drv_data := Some (bench_drv [] 0), sources := []\<rparr>) =
     Inr ((bench_world [])\<lparr>drv_data := Some (bench_drv [] 0), sources := []\<rparr>)"
proof -
  let ?w = "(bench_world [])\<lparr>drv_data := Some (bench_drv [] 0), sources := []\<rparr>"
  let ?w1 = "(bench_world [])\<lparr>drv_data := Some (bench_drv [] 2), last_source_id := 2,
                              sources := [2]\<rparr>"
  have h1: "drv_data ?w = Some (bench_drv [] 0)"
    by simp
  have h2: "one_registration ?w"
    by (simp add: one_registration_def bench_drv_def)
  have on: "iio_buffer_accel_set_polling True ?w = Inr ?w1"
    using polling_on_bench [of ?w "[]"] by (simp add: bench_world_def numeral_2_eq_2)
  have z: "io_source (bench_drv [] 0) = 0"
    by (simp add: bench_drv_def)
  from set_polling_idempotent [OF h1 h2]
  show ?thesis
    using h2 on z by auto
qed

subsection \<open>Failures of open\<close>

lemma open_without_trigger:
  assumes "drv_data w = None" and "get_trigger_name (udev_devices env) device = None"
  shows "iio_buffer_accel_open env device cb ud w = Inr (False, w)"
  using assms
  by (simp add: iio_buffer_accel_open_def clear_drv_data_def allocate_def release_def)

lemma open_without_buffer_data:
  assumes "drv_data w = None"
    and "get_trigger_name (udev_devices env) device = Some trigger_name"
    and "buffer_drv_data_new env device trigger_name = None"
  shows "iio_buffer_accel_open env device cb ud w = Inr (False, w)"
  using assms
  by (simp add: iio_buffer_accel_open_def clear_drv_data_def allocate_def release_def
        upd_drv_def Let_def)

lemma open_false_cases:
  assumes "iio_buffer_accel_open env device cb ud w = Inr (False, w')"
  shows "get_trigger_name (udev_devices env) device = None \<or>
         (\<exists>t. get_trigger_name (udev_devices env) device = Some t \<and>
              buffer_drv_data_new env device t = None)"
  using assms
  by (auto simp: iio_buffer_accel_open_def Let_def split: option.splits if_splits)

lemma open_fault_cases:
  assumes "iio_buffer_accel_open env device cb ud w = Inl f"
  shows "f = Abort \<and> g_io_channel_new_file env (device_file device) = None"
  using assms
  by (auto simp: iio_buffer_accel_open_def g_io_channel_set_encoding_def Let_def
           split: option.splits if_splits)

text \<open>
  C8. \<open>open\<close> called when there is no session. Without a trigger in the registry,
  and with a trigger but no buffer data, it returns false and the world is exactly
  as before the call: no session, and nothing left allocated. Setting the NULL
  encoding reports no error, so the test of line 220 never holds and no call of
  \<open>open\<close> ends there. Every return of false leaves the world as it was, and the
  only way \<open>open\<close> ends the process is a stream that cannot be opened.
\<close>

theorem open_failure_restores:
  assumes "drv_data w = None"
  shows "(get_trigger_name (udev_devices env) device = None \<longrightarrow>
            iio_buffer_accel_open env device cb ud w = Inr (False, w)) \<and>
         (\<forall>t. get_trigger_name (udev_devices env) device = Some t \<and>
              buffer_drv_data_new env device t = None \<longrightarrow>
              iio_buffer_accel_open env device cb ud w = Inr (False, w)) \<and>
         \<not> g_io_channel_set_encoding (iconv_fails env) None \<and>
         (\<forall>w'. iio_buffer_accel_open env device cb ud w = Inr (False, w') \<longrightarrow>
               w' = w \<and> drv_data w' = None \<and> live w' = live w) \<and>
         (\<forall>f. iio_buffer_accel_open env device cb ud w = Inl f \<longrightarrow>
              g_io_channel_new_file env (device_file device) = None)"
proof -
  have a: "get_trigger_name (udev_devices env) device = None \<longrightarrow>
             iio_buffer_accel_open env device cb ud w = Inr (False, w)"
    using open_without_trigger [OF assms] by blast
  have b: "\<forall>t. get_trigger_name (udev_devices env) device = Some t \<and>
               buffer_drv_data_new env device t = None \<longrightarrow>
               iio_buffer_accel_open env device cb ud w = Inr (False, w)"
    using open_without_buffer_data [OF assms] by blast
  have c: "\<not> g_io_channel_set_encoding (iconv_fails env) None"
    by (simp add: g_io_channel_set_encoding_def)
  have d: "\<forall>w'. iio_buffer_accel_open env device cb ud w = Inr (False, w') \<longrightarrow>
                w' = w \<and> drv_data w' = None \<and> live w' = live w"
  proof (intro allI impI)
    fix w'
    assume r: "iio_buffer_accel_open env device cb ud w = Inr (False, w')"
    from open_false_cases [OF r] a b have "iio_buffer_accel_open env device cb ud w = Inr (False, w)"
      by blast
    with r have "w' = w" by simp
    with assms show "w' = w \<and> drv_data w' = None \<and> live w' = live w" by simp
  qed
  have e: "\<forall>f. iio_buffer_accel_open env device cb ud w = Inl f \<longrightarrow>
               g_io_channel_new_file env (device_file device) = None"
    using open_fault_cases by blast
  from a b c d e show ?thesis
    by blast
qed

text \<open>
  On the bench: a registry that lacks the trigger, and a collaborator that refuses
  the buffer data, both with every named converter failing.
\<close>

theorem open_failure_restores_witness:
  "drv_data boot = None \<and>
   get_trigger_name (udev_devices no_trigger_env) accel_dev = None \<and>
   iio_buffer_accel_open no_trigger_env accel_dev 1 2 boot = Inr (False, boot) \<and>
   get_trigger_name (udev_devices no_buffer_env) accel_dev = Some ''accel_3d-dev3'' \<and>
   buffer_drv_data_new no_buffer_env accel_dev ''accel_3d-dev3'' = None \<and>
   iio_buffer_accel_open no_buffer_env accel_dev 1 2 boot = Inr (False, boot)"
proof -
  have h: "drv_data boot = None"
    by (simp add: boot_def)
  have t1: "get_trigger_name (udev_devices no_trigger_env) accel_dev = None"
    by (simp add: no_trigger_env_def bench_env_def get_trigger_name_def accel_dev_def printf_s_def)
  have t2: "get_trigger_name (udev_devices no_buffer_env) accel_dev = Some ''accel_3d-dev3''"
    by (simp add: no_buffer_env_def bench_env_def bench_trigger)
  have b2: "buffer_drv_data_new no_buffer_env accel_dev ''accel_3d-dev3'' = None"
    by (simp add: no_buffer_env_def)
  from open_failure_restores [OF h, of no_trigger_env accel_dev 1 2] t1
  have r1: "iio_buffer_accel_open no_trigger_env accel_dev 1 2 boot = Inr (False, boot)"
    by blast
  from open_failure_restores [OF h, of no_buffer_env accel_dev 1 2] t2 b2
  have r2: "iio_buffer_accel_open no_buffer_env accel_dev 1 2 boot = Inr (False, boot)"
    by blast
  from h t1 r1 t2 b2 r2 show ?thesis
    by blast
qed

end
